theory Spec2Isabelle
  imports Main "HOL-Library.Sublist"
begin

section \<open>Strings and characters\<close>

text \<open>
  A JavaScript string is modelled as a \<^typ>\<open>string\<close>: the list of its code units, for
  strings whose code units are below 256 (ASCII and Latin-1).  On these strings
  \<^verbatim>\<open>toLowerCase\<close> keeps the length, \<^verbatim>\<open>\s\<close> and \<^verbatim>\<open>trim\<close> know seven white-space
  characters, and \<^verbatim>\<open>\w\<close>, \<^verbatim>\<open>\d\<close> and the case-insensitive flag see ASCII only.
\<close>

abbreviation dq :: char where "dq \<equiv> CHR 0x22"
abbreviation sq :: char where "sq \<equiv> CHR 0x27"
abbreviation nl :: char where "nl \<equiv> CHR 0x0A"

definition charCode :: "char \<Rightarrow> nat" where
  "charCode c = of_char c"

definition isDigit :: "char \<Rightarrow> bool" where
  "isDigit c = (48 \<le> charCode c \<and> charCode c \<le> 57)"

definition isUpper :: "char \<Rightarrow> bool" where
  "isUpper c = (65 \<le> charCode c \<and> charCode c \<le> 90)"

definition isLower :: "char \<Rightarrow> bool" where
  "isLower c = (97 \<le> charCode c \<and> charCode c \<le> 122)"

text \<open>\<^verbatim>\<open>[\w-]\<close>: a letter, a digit, the underscore or the hyphen.\<close>

definition isWordDash :: "char \<Rightarrow> bool" where
  "isWordDash c = (isDigit c \<or> isUpper c \<or> isLower c \<or> c = CHR ''_'' \<or> c = CHR ''-'')"

text \<open>\<^verbatim>\<open>\s\<close>, and what \<^verbatim>\<open>trim\<close> removes: tab, LF, VT, FF, CR, space, no-break space.\<close>

definition isSpace :: "char \<Rightarrow> bool" where
  "isSpace c = (charCode c \<in> {9, 10, 11, 12, 13, 32, 160})"

text \<open>\<^verbatim>\<open>[a-f\d]\<close> under the flag \<^verbatim>\<open>i\<close>.\<close>

definition isHex :: "char \<Rightarrow> bool" where
  "isHex c = (isDigit c \<or> (97 \<le> charCode c \<and> charCode c \<le> 102) \<or> (65 \<le> charCode c \<and> charCode c \<le> 70))"

text \<open>\<^verbatim>\<open>toLowerCase\<close> on one code unit: A-Z, and the Latin-1 capitals (not the
  multiplication sign), move up by 32.\<close>

definition lowerChar :: "char \<Rightarrow> char" where
  "lowerChar c =
     (if isUpper c \<or> (192 \<le> charCode c \<and> charCode c \<le> 222 \<and> charCode c \<noteq> 215)
      then char_of (charCode c + 32) else c)"

definition toLowerCase :: "string \<Rightarrow> string" where
  "toLowerCase s = map lowerChar s"

text \<open>A literal ASCII character of a pattern under the flag \<^verbatim>\<open>i\<close>: only the two ASCII
  cases of a letter match it.\<close>

definition asciiLower :: "char \<Rightarrow> char" where
  "asciiLower c = (if isUpper c then char_of (charCode c + 32) else c)"

definition startsWith :: "string \<Rightarrow> string \<Rightarrow> bool" where
  "startsWith s p = prefix p s"

text \<open>\<^verbatim>\<open>s.includes(p)\<close>.\<close>

definition includes_str :: "string \<Rightarrow> string \<Rightarrow> bool" where
  "includes_str s p = sublist p s"

text \<open>\<^verbatim>\<open>s.slice(a, b)\<close> for \<open>0 \<le> a\<close>, \<open>0 \<le> b\<close>: both ends are clamped to the length.\<close>

definition slice :: "nat \<Rightarrow> nat \<Rightarrow> string \<Rightarrow> string" where
  "slice a b s = take (b - a) (drop a s)"

text \<open>\<^verbatim>\<open>s.indexOf(p)\<close>: the first index where \<open>p\<close> starts, \<open>None\<close> for -1.\<close>

fun indexOf :: "string \<Rightarrow> string \<Rightarrow> nat option" where
  "indexOf [] p = (if p = [] then Some 0 else None)"
| "indexOf (c # cs) p = (if prefix p (c # cs) then Some 0 else map_option Suc (indexOf cs p))"

text \<open>\<^verbatim>\<open>s.indexOf(p, pos)\<close> for \<open>pos \<le> length s\<close>.\<close>

definition indexOfFrom :: "string \<Rightarrow> string \<Rightarrow> nat \<Rightarrow> nat option" where
  "indexOfFrom s p pos = map_option (\<lambda>i. i + pos) (indexOf (drop pos s) p)"

text \<open>\<^verbatim>\<open>s.replace(/p/g, r)\<close> for a pattern \<open>p\<close> of literal characters (never empty here):
  the occurrences of \<open>p\<close> are replaced from the left, without overlap.\<close>

fun replaceAll :: "string \<Rightarrow> string \<Rightarrow> string \<Rightarrow> string" where
  "replaceAll p r [] = []"
| "replaceAll p r (c # cs) =
     (if prefix p (c # cs) then r @ replaceAll p r (drop (length p - 1) cs)
      else c # replaceAll p r cs)"

section \<open>Regular expressions\<close>

text \<open>
  The regular expressions of the source are sequences of character classes, each taken
  once, optionally (\<^verbatim>\<open>?\<close>), any number of times (\<^verbatim>\<open>*\<close>) or at least once (\<^verbatim>\<open>+\<close>), and
  the anchor \<^verbatim>\<open>$\<close>.  \<open>matchSeq\<close> is the backtracking matcher of JavaScript at one start
  position: a quantifier is greedy, it takes the longest run first and gives characters
  back one at a time when the rest of the pattern fails.  The result lists what each
  item of the pattern matched.
\<close>

datatype quant = One | Opt | Star | Plus

datatype item = Cls "char \<Rightarrow> bool" quant | End

fun matchSeq :: "item list \<Rightarrow> string \<Rightarrow> string list option" where
  "matchSeq [] s = Some []"
| "matchSeq (End # is) s = (if s = [] then map_option (Cons []) (matchSeq is s) else None)"
| "matchSeq (Cls p One # is) [] = None"
| "matchSeq (Cls p One # is) (c # cs) =
     (if p c then map_option (Cons [c]) (matchSeq is cs) else None)"
| "matchSeq (Cls p Opt # is) [] = map_option (Cons []) (matchSeq is [])"
| "matchSeq (Cls p Opt # is) (c # cs) =
     (if p c then
        (case matchSeq is cs of
           Some gs \<Rightarrow> Some ([c] # gs)
         | None \<Rightarrow> map_option (Cons []) (matchSeq is (c # cs)))
      else map_option (Cons []) (matchSeq is (c # cs)))"
| "matchSeq (Cls p Star # is) [] = map_option (Cons []) (matchSeq is [])"
| "matchSeq (Cls p Star # is) (c # cs) =
     (if p c then
        (case matchSeq (Cls p Star # is) cs of
           Some (g # gs) \<Rightarrow> Some ((c # g) # gs)
         | _ \<Rightarrow> map_option (Cons []) (matchSeq is (c # cs)))
      else map_option (Cons []) (matchSeq is (c # cs)))"
| "matchSeq (Cls p Plus # is) [] = None"
| "matchSeq (Cls p Plus # is) (c # cs) =
     (if p c then
        (case matchSeq (Cls p Star # is) cs of
           Some (g # gs) \<Rightarrow> Some ((c # g) # gs)
         | _ \<Rightarrow> None)
      else None)"

text \<open>A literal text of a pattern, and the same under the flag \<^verbatim>\<open>i\<close>.\<close>

definition lit :: "string \<Rightarrow> item list" where
  "lit s = map (\<lambda>c. Cls (\<lambda>x. x = c) One) s"

definition litI :: "string \<Rightarrow> item list" where
  "litI s = map (\<lambda>c. Cls (\<lambda>x. asciiLower x = asciiLower c) One) s"

text \<open>A pattern without \<^verbatim>\<open>^\<close> is tried at every start position from the left; the result
  is the index of the match and what its items matched.\<close>

fun search :: "item list \<Rightarrow> string \<Rightarrow> (nat \<times> string list) option" where
  "search is [] = map_option (Pair 0) (matchSeq is [])"
| "search is (c # cs) =
     (case matchSeq is (c # cs) of
        Some gs \<Rightarrow> Some (0, gs)
      | None \<Rightarrow> map_option (\<lambda>(i, gs). (Suc i, gs)) (search is cs))"

section \<open>What a match looks like\<close>

text \<open>\<open>fits i x\<close>: the text \<open>x\<close> is one that the item \<open>i\<close> of a pattern can match.\<close>

fun fits :: "item \<Rightarrow> string \<Rightarrow> bool" where
  "fits End x = (x = [])"
| "fits (Cls p One) x = (length x = 1 \<and> list_all p x)"
| "fits (Cls p Opt) x = (length x \<le> 1 \<and> list_all p x)"
| "fits (Cls p Star) x = list_all p x"
| "fits (Cls p Plus) x = (x \<noteq> [] \<and> list_all p x)"

lemma matchSeq_sound:
  "matchSeq is s = Some gs \<Longrightarrow>
     list_all2 fits is gs \<and> (\<exists>rest. s = concat gs @ rest \<and> (End \<in> set is \<longrightarrow> rest = []))"
proof (induction "is" s arbitrary: gs rule: matchSeq.induct)
  case (8 p "is" c cs)
  then show ?case
    by (fastforce split: if_splits option.splits list.splits)
next
  case (10 p "is" c cs)
  then show ?case
    by (fastforce split: if_splits option.splits list.splits)
qed (fastforce split: if_splits option.splits list.splits)+

lemma matchSeq_prefix: "matchSeq is s = Some gs \<Longrightarrow> prefix (concat gs) s"
  using matchSeq_sound [of "is" s gs] by (auto simp: prefix_def)

lemma matchSeq_length: "matchSeq is s = Some gs \<Longrightarrow> length gs = length is"
  using matchSeq_sound [of "is" s gs] by (auto dest: list_all2_lengthD)

lemma search_sound:
  "search is s = Some (i, gs) \<Longrightarrow>
     i \<le> length s \<and> matchSeq is (drop i s) = Some gs"
proof (induction "is" s arbitrary: i gs rule: search.induct)
  case (1 "is")
  then show ?case by auto
next
  case (2 "is" c cs)
  then show ?case
    by (cases "matchSeq is (c # cs)") auto
qed

text \<open>All the matches of a pattern in a text, from the left and without overlap, as
  \<^verbatim>\<open>s.match(re)\<close> with the flag \<^verbatim>\<open>g\<close> lists them and as a loop over \<^verbatim>\<open>re.exec(s)\<close> visits
  them.  After an empty match the search moves on by one character (no pattern of the
  source matches the empty text).\<close>

function matchAll :: "item list \<Rightarrow> string \<Rightarrow> string list list" where
  "matchAll is s =
     (case search is s of
        None \<Rightarrow> []
      | Some (i, gs) \<Rightarrow>
          (if concat gs = [] then
             gs # (if i < length s then matchAll is (drop (Suc i) s) else [])
           else gs # matchAll is (drop (i + length (concat gs)) s)))"
  by pat_completeness auto
termination
proof (relation "measure (\<lambda>(is, s). length s)")
  show "wf (measure (\<lambda>(is, s). length s))" by simp
next
  fix "is" :: "item list" and s :: string and x2 i gs
  assume "search is s = Some x2" "(i, gs) = x2" "concat gs = []" "i < length s"
  then show "((is, drop (Suc i) s), (is, s)) \<in> measure (\<lambda>(is, s). length s)"
    by simp
next
  fix "is" :: "item list" and s :: string and x2 i gs
  assume a: "search is s = Some x2" "(i, gs) = x2" "concat gs \<noteq> []"
  then have "search is s = Some (i, gs)" by simp
  from search_sound [OF this] have "i \<le> length s" "prefix (concat gs) (drop i s)"
    by (auto dest: matchSeq_prefix)
  with a(3) have "drop i s \<noteq> []" by auto
  then have "i < length s" by simp
  moreover from a(3) have "0 < length (concat gs)" by (simp del: concat_eq_Nil_conv)
  ultimately show "((is, drop (i + length (concat gs)) s), (is, s)) \<in> measure (\<lambda>(is, s). length s)"
    by (simp del: length_concat length_greater_0_conv)
qed

declare matchAll.simps [simp del]

section \<open>Markup parser\<close>

text \<open>\<open>decodeHtmlEntities\<close>: six replacements, one after the other, in the order of the
  source.\<close>

definition decodeHtmlEntities :: "string \<Rightarrow> string" where
  "decodeHtmlEntities s =
     replaceAll ''&nbsp;'' '' ''
       (replaceAll ''&#39;'' [sq]
         (replaceAll ''&quot;'' [dq]
           (replaceAll ''&amp;'' ''&''
             (replaceAll ''&gt;'' ''>''
               (replaceAll ''&lt;'' ''<'' s)))))"

record StyleState =
  bold :: bool
  italic :: bool
  strikethrough :: bool
  code :: bool

text \<open>The list context is an object of the source: the parser passes it on by reference
  and a list item increments its counter in place.  The model returns the context with
  the nodes, so that the caller sees the counter the callee left.  Its field \<^verbatim>\<open>type\<close> is
  \<open>listType\<close> here, and \<^verbatim>\<open>null\<close> is \<open>NoList\<close>.\<close>

datatype ListType = Ul | Ol | NoList

record ListContext =
  listType :: ListType
  counter :: nat

text \<open>A text node as \<^verbatim>\<open>TextNodeRenderable.fromString(text, {fg, attributes})\<close> builds it.  The
  attributes are a bit mask in the source; the model keeps the set of the bits.  A node
  built without attributes has none.  The text of a node is its field \<open>content\<close>.\<close>

datatype TextAttribute = BOLD | ITALIC | STRIKETHROUGH

record TextNode =
  content :: string
  fg :: string
  attributes :: "TextAttribute set"

text \<open>The colors of the theme that the parser reads.  They are computed from the
  terminal's palette, which does not change while a text is parsed: they are
  parameters of the model.\<close>

record Theme =
  primary :: string
  secondary :: string
  accent :: string
  muted :: string

definition getAttributes :: "StyleState \<Rightarrow> TextAttribute set" where
  "getAttributes state =
     (if bold state then {BOLD} else {}) \<union>
     (if italic state then {ITALIC} else {}) \<union>
     (if strikethrough state then {STRIKETHROUGH} else {})"

definition isQuote :: "char \<Rightarrow> bool" where
  "isQuote c = (c = dq \<or> c = sq)"

text \<open>\<^verbatim>\<open>/name=["']([^"']+)["']/\<close> and \<^verbatim>\<open>/name=["'](\d+)["']/\<close>; the value is what the item
  after the first quote matched.\<close>

definition attrRe :: "string \<Rightarrow> item list" where
  "attrRe name = lit (name @ ''='') @
     [Cls isQuote One, Cls (\<lambda>x. \<not> isQuote x) Plus, Cls isQuote One]"

definition digitsAttrRe :: "string \<Rightarrow> item list" where
  "digitsAttrRe name = lit (name @ ''='') @
     [Cls isQuote One, Cls isDigit Plus, Cls isQuote One]"

definition attrMatch :: "string \<Rightarrow> string \<Rightarrow> string option" where
  "attrMatch name s =
     map_option (\<lambda>(i, gs). gs ! (length name + 2)) (search (attrRe name) s)"

definition extractHref :: "string \<Rightarrow> string option" where
  "extractHref attrs = attrMatch ''href'' attrs"

text \<open>\<^verbatim>\<open>/^([^<]*)<(\/?)([\w-]+)([^>]*)>/\<close>: the items 0, 2, 3 and 4 are the four groups.\<close>

definition tagRe :: "item list" where
  "tagRe = [Cls (\<lambda>x. x \<noteq> CHR ''<'') Star, Cls (\<lambda>x. x = CHR ''<'') One,
            Cls (\<lambda>x. x = CHR ''/'') Opt, Cls isWordDash Plus,
            Cls (\<lambda>x. x \<noteq> CHR ''>'') Star, Cls (\<lambda>x. x = CHR ''>'') One]"

text \<open>\<^verbatim>\<open>s.trim()\<close>, and \<^verbatim>\<open>s.replace(/\s+/g, " ")\<close>: every longest run of white space
  becomes one space.\<close>

definition trim :: "string \<Rightarrow> string" where
  "trim s = rev (dropWhile isSpace (rev (dropWhile isSpace s)))"

function collapseSpaces :: "string \<Rightarrow> string" where
  "collapseSpaces [] = []"
| "collapseSpaces (c # cs) =
     (if isSpace c then CHR '' '' # collapseSpaces (dropWhile isSpace cs)
      else c # collapseSpaces cs)"
  by pat_completeness auto
termination
  by (relation "measure length") (auto simp: length_dropWhile_le less_Suc_eq_le)

text \<open>The decimal text of a counter, as a template string prints it.\<close>

fun numberToString :: "nat \<Rightarrow> string" where
  "numberToString n =
     (if n < 10 then [char_of (48 + n)]
      else numberToString (n div 10) @ [char_of (48 + n mod 10)])"

declare numberToString.simps [simp del]

text \<open>The literal texts of the source outside Latin-1 (bullet, rule, icons) stand as
  their UTF-8 bytes; the parser only emits them.\<close>

definition bulletText :: string where
  "bulletText = [CHR 0xE2, CHR 0x80, CHR 0xA2, CHR '' '']"

definition ruleText :: string where
  "ruleText = [nl, CHR 0xE2, CHR 0x94, CHR 0x80, CHR 0xE2, CHR 0x94, CHR 0x80,
               CHR 0xE2, CHR 0x94, CHR 0x80, nl]"

definition videoIcon :: string where
  "videoIcon = [CHR 0xEF, CHR 0x80, CHR 0xBD, CHR '' '']"

definition paperclipIcon :: string where
  "paperclipIcon = [CHR 0xEF, CHR 0x83, CHR 0x86, CHR '' '']"

definition codeGreen :: string where
  "codeGreen = ''#98c379''"

definition origin :: string where
  "origin = ''https://app.fizzy.do''"

text \<open>A node with a color and no attributes, and a node in the ambient style.\<close>

definition plainNode :: "string \<Rightarrow> string \<Rightarrow> TextNode" where
  "plainNode s color = \<lparr>content = s, fg = color, attributes = {}\<rparr>"

definition styledNode :: "string \<Rightarrow> StyleState \<Rightarrow> string \<Rightarrow> TextNode" where
  "styledNode s state defaultFg =
     \<lparr>content = s, fg = (if code state then codeGreen else defaultFg),
      attributes = getAttributes state\<rparr>"

subsection \<open>The matching closing tag\<close>

text \<open>\<^verbatim>\<open>new RegExp(`<${tagName}[^>]*>`, "gi")\<close>.  The tag name is a lower-case text of
  letters, digits, underscores and hyphens, each of which stands for itself.\<close>

definition openTagRe :: "string \<Rightarrow> item list" where
  "openTagRe tagName = litI (''<'' @ tagName) @
     [Cls (\<lambda>x. x \<noteq> CHR ''>'') Star, Cls (\<lambda>x. x = CHR ''>'') One]"

definition closeTagOf :: "string \<Rightarrow> string" where
  "closeTagOf tagName = ''</'' @ tagName @ ''>''"

lemma indexOf_le: "indexOf s p = Some i \<Longrightarrow> i \<le> length s"
  by (induction s p arbitrary: i rule: indexOf.induct) (auto split: if_splits)

lemma indexOfFrom_ge: "indexOfFrom s p pos = Some i \<Longrightarrow> pos \<le> i"
  by (auto simp: indexOfFrom_def)

text \<open>The loop of \<open>findMatchingClose\<close>, with its two variables \<open>depth\<close> and \<open>pos\<close>;
  \<open>None\<close> is the result -1.\<close>

function findMatchingClose_loop :: "string \<Rightarrow> string \<Rightarrow> int \<Rightarrow> nat \<Rightarrow> nat option" where
  "findMatchingClose_loop html tagName depth pos =
     (if depth > 0 \<and> pos < length html then
        (case indexOfFrom (toLowerCase html) (toLowerCase (closeTagOf tagName)) pos of
           None \<Rightarrow> None
         | Some nextClose \<Rightarrow>
             (let segment = slice pos nextClose html;
                  opens = length (matchAll (openTagRe tagName) segment);
                  depth' = depth + (int opens - 1)
              in if depth' = 0 then Some nextClose
                 else findMatchingClose_loop html tagName depth'
                        (nextClose + length (closeTagOf tagName))))
      else None)"
  by pat_completeness auto
termination
  by (relation "measure (\<lambda>(html, tagName, depth, pos). length html - pos)")
     (auto simp: closeTagOf_def dest: indexOfFrom_ge)

declare findMatchingClose_loop.simps [simp del]

definition findMatchingClose :: "string \<Rightarrow> string \<Rightarrow> nat option" where
  "findMatchingClose html tagName = findMatchingClose_loop html tagName 1 0"

subsection \<open>The parser\<close>

lemma tagRe_consumes:
  assumes "matchSeq tagRe s = Some gs"
  shows "length (drop (length (concat gs)) s) < length s"
proof -
  from matchSeq_sound [OF assms] obtain rest where
    f: "list_all2 fits tagRe gs" and s: "s = concat gs @ rest"
    by blast
  from f have "concat gs \<noteq> []"
    by (auto simp: tagRe_def list_all2_Cons1)
  then have "0 < length (concat gs)" by (simp del: concat_eq_Nil_conv)
  moreover from s have "length s = length (concat gs) + length rest"
    by (metis length_append)
  ultimately show ?thesis by (simp del: length_concat)
qed

text \<open>The three kinds of call of the parser: on the text after the tag, on the text
  inside the tag, and on the text after the closing tag.  Each is on a shorter text.\<close>

lemma call_after_tag:
  assumes "matchSeq tagRe remaining = Some gs" "remaining1 = drop (length (concat gs)) remaining"
  shows "((th1, remaining1, st1, fg1, lc1), (th, remaining, st, fg0, lc))
           \<in> measure (\<lambda>(th, remaining, state, defaultFg, listContext). length remaining)"
  using tagRe_consumes [OF assms(1)] assms(2) by simp

lemma call_inner:
  assumes "matchSeq tagRe remaining = Some gs" "remaining1 = drop (length (concat gs)) remaining"
    "innerHtml = take closeIndex remaining1"
  shows "((th1, innerHtml, st1, fg1, lc1), (th, remaining, st, fg0, lc))
           \<in> measure (\<lambda>(th, remaining, state, defaultFg, listContext). length remaining)"
  using tagRe_consumes [OF assms(1)] assms(2,3) by simp

lemma call_after_close:
  assumes "matchSeq tagRe remaining = Some gs" "remaining1 = drop (length (concat gs)) remaining"
    "remaining2 = drop k remaining1"
  shows "((th1, remaining2, st1, fg1, lc1), (th, remaining, st, fg0, lc))
           \<in> measure (\<lambda>(th, remaining, state, defaultFg, listContext). length remaining)"
  using tagRe_consumes [OF assms(1)] assms(2,3) by simp

text \<open>The case \<^verbatim>\<open>action-text-attachment\<close> of the parser: the nodes it adds.\<close>

definition attachmentNodes :: "Theme \<Rightarrow> string \<Rightarrow> string \<Rightarrow> TextNode list" where
  "attachmentNodes th tagAttrs defaultFg =
     (let urlMatch = attrMatch ''url'' tagAttrs;
          filename = attrMatch ''filename'' tagAttrs;
          caption = attrMatch ''caption'' tagAttrs;
          contentType = attrMatch ''content-type'' tagAttrs;
          displayName = (case caption of Some c \<Rightarrow> c
                         | None \<Rightarrow> (case filename of Some f \<Rightarrow> f | None \<Rightarrow> ''attachment''));
          url = (case urlMatch of
                   Some u \<Rightarrow> Some (if startsWith u ''/'' then origin @ u else u)
                 | None \<Rightarrow> None)
      in if url \<noteq> None \<and> (case contentType of Some t \<Rightarrow> startsWith t ''image/'' | None \<Rightarrow> False)
         then []
         else if url \<noteq> None \<and> (case contentType of Some t \<Rightarrow> startsWith t ''video/'' | None \<Rightarrow> False)
         then [plainNode [nl] defaultFg, plainNode videoIcon (accent th),
               plainNode (''['' @ displayName @ '']'') (secondary th), plainNode [nl] defaultFg]
         else if url \<noteq> None
         then [plainNode [nl] defaultFg, plainNode paperclipIcon (accent th),
               plainNode (''['' @ displayName @ '']'') (secondary th), plainNode [nl] defaultFg]
         else [])"

text \<open>The text in front of the tag that was found: the node it gives, if any.\<close>

definition textBeforeNodes :: "string \<Rightarrow> StyleState \<Rightarrow> string \<Rightarrow> TextNode list" where
  "textBeforeNodes group1 state defaultFg =
     (let textBefore = decodeHtmlEntities group1;
          isFormattingWhitespace = (trim textBefore = [] \<and> includes_str textBefore [nl])
      in if textBefore \<noteq> [] \<and> \<not> isFormattingWhitespace
         then [styledNode (if code state then textBefore else collapseSpaces textBefore)
                 state defaultFg]
         else [])"

text \<open>\<open>parseHtmlContent\<close>.  One unfolding is one turn of the loop: the nodes of the turn,
  then the nodes of the turns on the rest of the text.\<close>

function parseHtmlContent ::
  "Theme \<Rightarrow> string \<Rightarrow> StyleState \<Rightarrow> string \<Rightarrow> ListContext \<Rightarrow> TextNode list \<times> ListContext"
where
  "parseHtmlContent th remaining state defaultFg listContext =
     (if remaining = [] then ([], listContext)
      else case matchSeq tagRe remaining of
        None \<Rightarrow>
          (let s = decodeHtmlEntities remaining
           in (if s \<noteq> [] then [styledNode s state defaultFg] else [], listContext))
      | Some tagMatch \<Rightarrow>
          (let before = textBeforeNodes (tagMatch ! 0) state defaultFg;
               isClosing = (tagMatch ! 2 = ''/'');
               tagName = toLowerCase (tagMatch ! 3);
               tagAttrs = tagMatch ! 4;
               remaining1 = drop (length (concat tagMatch)) remaining
           in if tagName = ''br'' then
                (let (rest, lc) = parseHtmlContent th remaining1 state defaultFg listContext
                 in (before @ [plainNode [nl] defaultFg] @ rest, lc))
              else if tagName = ''hr'' then
                (let (rest, lc) = parseHtmlContent th remaining1 state defaultFg listContext
                 in (before @ [plainNode ruleText (muted th)] @ rest, lc))
              else if isClosing then
                (let (rest, lc) = parseHtmlContent th remaining1 state defaultFg listContext
                 in (before @ rest, lc))
              else case findMatchingClose remaining1 tagName of
                None \<Rightarrow>
                  (let (rest, lc) = parseHtmlContent th remaining1 state defaultFg listContext
                   in (before @ rest, lc))
              | Some closeIndex \<Rightarrow>
                  (let innerHtml = take closeIndex remaining1;
                       remaining2 = drop (closeIndex + length (closeTagOf tagName)) remaining1;
                       (nodes, lc1) =
                         (if tagName = ''b'' \<or> tagName = ''strong'' then
                            parseHtmlContent th innerHtml (state\<lparr>bold := True\<rparr>) defaultFg listContext
                          else if tagName = ''i'' \<or> tagName = ''em'' then
                            parseHtmlContent th innerHtml (state\<lparr>italic := True\<rparr>) defaultFg listContext
                          else if tagName = ''s'' \<or> tagName = ''strike'' \<or> tagName = ''del'' then
                            parseHtmlContent th innerHtml (state\<lparr>strikethrough := True\<rparr>) defaultFg listContext
                          else if tagName = ''code'' then
                            parseHtmlContent th innerHtml (state\<lparr>code := True\<rparr>) defaultFg listContext
                          else if tagName = ''h1'' then
                            (let (ns, lc) = parseHtmlContent th innerHtml (state\<lparr>bold := True\<rparr>) (primary th) listContext
                             in ([plainNode [nl] defaultFg] @ ns @ [plainNode [nl] defaultFg], lc))
                          else if tagName = ''h2'' then
                            (let (ns, lc) = parseHtmlContent th innerHtml (state\<lparr>bold := True\<rparr>) (secondary th) listContext
                             in ([plainNode [nl] defaultFg] @ ns @ [plainNode [nl] defaultFg], lc))
                          else if tagName = ''h3'' then
                            (let (ns, lc) = parseHtmlContent th innerHtml (state\<lparr>bold := True\<rparr>) (accent th) listContext
                             in ([plainNode [nl] defaultFg] @ ns @ [plainNode [nl] defaultFg], lc))
                          else if tagName = ''p'' then
                            (let (ns, lc) = parseHtmlContent th innerHtml state defaultFg listContext
                             in (ns @ [plainNode [nl] defaultFg], lc))
                          else if tagName = ''li'' then
                            (let (marker, lc) =
                                   (if listType listContext = Ol then
                                      ([plainNode (numberToString (counter listContext + 1) @ ''. '') (accent th)],
                                       listContext\<lparr>counter := counter listContext + 1\<rparr>)
                                    else ([plainNode bulletText (accent th)], listContext));
                                 (ns, lc') = parseHtmlContent th innerHtml state defaultFg
                                               \<lparr>listType = NoList, counter = 0\<rparr>
                             in (marker @ ns @ [plainNode [nl] defaultFg], lc))
                          else if tagName = ''blockquote'' then
                            (let (ns, lc) = parseHtmlContent th innerHtml (state\<lparr>italic := True\<rparr>) (muted th) listContext
                             in ([plainNode [CHR 0xE2, CHR 0x94, CHR 0x82, CHR '' ''] (muted th)] @ ns
                                   @ [plainNode [nl] defaultFg], lc))
                          else if tagName = ''a'' then
                            (let href = extractHref tagAttrs;
                                 (linkText, lc) = parseHtmlContent th innerHtml state (secondary th) listContext
                             in ([plainNode ''['' (muted th)] @ linkText @ [plainNode '']'' (muted th)]
                                   @ (case href of
                                        Some h \<Rightarrow> [plainNode (''('' @ h @ '')'') (muted th)]
                                      | None \<Rightarrow> []), lc))
                          else if tagName = ''pre'' then
                            (let (ns, lc) = parseHtmlContent th innerHtml (state\<lparr>code := True\<rparr>) codeGreen listContext
                             in ([plainNode [nl] defaultFg] @ ns @ [plainNode [nl] defaultFg], lc))
                          else if tagName = ''ul'' then
                            (let (ns, lc') = parseHtmlContent th innerHtml state defaultFg
                                               \<lparr>listType = Ul, counter = 0\<rparr>
                             in (ns, listContext))
                          else if tagName = ''ol'' then
                            (let (ns, lc') = parseHtmlContent th innerHtml state defaultFg
                                               \<lparr>listType = Ol, counter = 0\<rparr>
                             in (ns, listContext))
                          else if tagName = ''div'' \<or> tagName = ''span'' \<or> tagName = ''figure''
                                  \<or> tagName = ''figcaption'' then
                            parseHtmlContent th innerHtml state defaultFg listContext
                          else if tagName = ''action-text-attachment'' then
                            (attachmentNodes th tagAttrs defaultFg, listContext)
                          else if tagName = ''img'' then
                            ([], listContext)
                          else
                            (let (ns, lc') = parseHtmlContent th innerHtml state defaultFg
                                               \<lparr>listType = NoList, counter = 0\<rparr>
                             in (ns, listContext)));
                       (rest, lc2) = parseHtmlContent th remaining2 state defaultFg lc1
                   in (before @ nodes @ rest, lc2))))"
  by pat_completeness auto
termination
  by (relation "measure (\<lambda>(th, remaining, state, defaultFg, listContext). length remaining)")
     (simp, (rule call_inner call_after_close call_after_tag; assumption)+)

declare parseHtmlContent.simps [simp del]

section \<open>Attachment extractor\<close>

text \<open>\<^verbatim>\<open>parseInt(s)\<close> on a text of decimal digits is a double: the integer the digits
  write when that is at most \<open>2^53\<close>, and beyond that the double nearest to it, which the
  model does not compute: it keeps the digits.\<close>

datatype jsNumber = Exact int | Rounded string

definition decimalValue :: "string \<Rightarrow> int" where
  "decimalValue s = foldl (\<lambda>acc c. 10 * acc + (int (charCode c) - 48)) 0 s"

definition parseInt10 :: "string \<Rightarrow> jsNumber" where
  "parseInt10 s =
     (if decimalValue s \<le> 9007199254740992 then Exact (decimalValue s) else Rounded s)"

record ImageInfo =
  url :: string
  alt :: string
  width :: "jsNumber option"
  height :: "jsNumber option"

definition digitsAttrMatch :: "string \<Rightarrow> string \<Rightarrow> string option" where
  "digitsAttrMatch name s =
     map_option (\<lambda>(i, gs). gs ! (length name + 2)) (search (digitsAttrRe name) s)"

text \<open>\<^verbatim>\<open>/<action-text-attachment[^>]+content-type=["']image\/[^"']+["'][^>]*>/gi\<close>\<close>

definition attachmentRegex :: "item list" where
  "attachmentRegex = litI ''<action-text-attachment'' @ [Cls (\<lambda>x. x \<noteq> CHR ''>'') Plus]
     @ litI ''content-type='' @ [Cls isQuote One] @ litI ''image/''
     @ [Cls (\<lambda>x. \<not> isQuote x) Plus, Cls isQuote One,
        Cls (\<lambda>x. x \<noteq> CHR ''>'') Star, Cls (\<lambda>x. x = CHR ''>'') One]"

text \<open>\<^verbatim>\<open>/<img[^>]+src=["']([^"']+)["'][^>]*>/gi\<close>; the group is item 10.\<close>

definition imgRegex :: "item list" where
  "imgRegex = litI ''<img'' @ [Cls (\<lambda>x. x \<noteq> CHR ''>'') Plus] @ litI ''src=''
     @ [Cls isQuote One, Cls (\<lambda>x. \<not> isQuote x) Plus, Cls isQuote One,
        Cls (\<lambda>x. x \<noteq> CHR ''>'') Star, Cls (\<lambda>x. x = CHR ''>'') One]"

text \<open>The body of the first loop, for one match \<open>tag\<close> of \<open>attachmentRegex\<close>: the
  descriptors it pushes.\<close>

definition attachmentImage :: "string \<Rightarrow> ImageInfo list" where
  "attachmentImage tag =
     (let urlMatch = attrMatch ''url'' tag;
          filenameMatch = attrMatch ''filename'' tag;
          widthMatch = digitsAttrMatch ''width'' tag;
          heightMatch = digitsAttrMatch ''height'' tag
      in case urlMatch of
           None \<Rightarrow> []
         | Some u \<Rightarrow>
             [\<lparr>url = (if startsWith u ''/'' then origin @ u else u),
               alt = (case filenameMatch of Some f \<Rightarrow> f | None \<Rightarrow> ''image''),
               width = map_option parseInt10 widthMatch,
               height = map_option parseInt10 heightMatch\<rparr>])"

text \<open>The body of the second loop, for one match of \<open>imgRegex\<close> and the descriptors
  \<open>images\<close> collected so far.\<close>

definition imgStep :: "ImageInfo list \<Rightarrow> string list \<Rightarrow> ImageInfo list" where
  "imgStep images m =
     (let tag = concat m;
          src = m ! 10;
          altMatch = attrMatch ''alt'' tag;
          widthMatch = digitsAttrMatch ''width'' tag;
          heightMatch = digitsAttrMatch ''height'' tag
      in if \<not> startsWith src ''/''
            \<or> \<not> list_ex (\<lambda>img. includes_str (url img) (drop 1 src)) images
         then images @
             [\<lparr>url = (if startsWith src ''/'' then origin @ src else src),
               alt = (case altMatch of Some a \<Rightarrow> a | None \<Rightarrow> ''image''),
               width = map_option parseInt10 widthMatch,
               height = map_option parseInt10 heightMatch\<rparr>]
         else images)"

definition extractImageUrls :: "string \<Rightarrow> ImageInfo list" where
  "extractImageUrls html =
     foldl imgStep
       (concat (map (\<lambda>m. attachmentImage (concat m)) (matchAll attachmentRegex html)))
       (matchAll imgRegex html)"

section \<open>Color model\<close>

record rgb =
  r :: nat
  g :: nat
  b :: nat

text \<open>\<^verbatim>\<open>parseInt(s, 16)\<close> on a text of hexadecimal digits.\<close>

definition hexDigitValue :: "char \<Rightarrow> nat" where
  "hexDigitValue c =
     (if isDigit c then charCode c - 48
      else if isLower c then charCode c - 87
      else charCode c - 55)"

definition parseInt16 :: "string \<Rightarrow> nat" where
  "parseInt16 s = foldl (\<lambda>acc c. 16 * acc + hexDigitValue c) 0 s"

text \<open>\<^verbatim>\<open>/^#?([a-f\d]{2})([a-f\d]{2})([a-f\d]{2})$/i\<close>\<close>

definition hexRe :: "item list" where
  "hexRe = [Cls (\<lambda>x. x = CHR ''#'') Opt,
            Cls isHex One, Cls isHex One, Cls isHex One,
            Cls isHex One, Cls isHex One, Cls isHex One, End]"

definition hexToRgb :: "string \<Rightarrow> rgb" where
  "hexToRgb hex =
     (case matchSeq hexRe hex of
        Some [h, r1, r2, g1, g2, b1, b2, e] \<Rightarrow>
          \<lparr>r = parseInt16 (r1 @ r2), g = parseInt16 (g1 @ g2), b = parseInt16 (b1 @ b2)\<rparr>
      | _ \<Rightarrow> \<lparr>r = 0, g = 0, b = 0\<rparr>)"

text \<open>\<^verbatim>\<open>x.toString(16)\<close> and \<^verbatim>\<open>padStart\<close>.  \<open>rgbToHex\<close> is modelled on the channel
  values \<open>hexToRgb\<close> produces, natural numbers, where \<^verbatim>\<open>Math.round\<close> changes nothing.\<close>

definition hexDigit :: "nat \<Rightarrow> char" where
  "hexDigit d = char_of (if d < 10 then 48 + d else 87 + d)"

fun toString16 :: "nat \<Rightarrow> string" where
  "toString16 n = (if n < 16 then [hexDigit n] else toString16 (n div 16) @ [hexDigit (n mod 16)])"

definition padStart :: "nat \<Rightarrow> char \<Rightarrow> string \<Rightarrow> string" where
  "padStart n c s = replicate (n - length s) c @ s"

definition rgbToHex :: "nat \<Rightarrow> nat \<Rightarrow> nat \<Rightarrow> string" where
  "rgbToHex r' g' b' = ''#'' @ concat (map (\<lambda>x. padStart 2 CHR ''0'' (toString16 x)) [r', g', b'])"

declare toString16.simps [simp del]

text \<open>The well-formed inputs of \<open>hexToRgb\<close> in the specification's words: six hexadecimal
  digits in either case, with or without a leading \<^verbatim>\<open>#\<close>; and the canonical form of one,
  \<^verbatim>\<open>#rrggbb\<close> in lower case.\<close>

definition wellFormedHex :: "string \<Rightarrow> bool" where
  "wellFormedHex h =
     (let d = (case h of c # cs \<Rightarrow> if c = CHR ''#'' then cs else h | [] \<Rightarrow> h)
      in length d = 6 \<and> list_all isHex d)"

definition canonicalHex :: "string \<Rightarrow> string" where
  "canonicalHex h =
     (let d = (case h of c # cs \<Rightarrow> if c = CHR ''#'' then cs else h | [] \<Rightarrow> h)
      in CHR ''#'' # map asciiLower d)"

section \<open>Theme: the category colors\<close>

definition FIZZY_COLORS_LIGHT :: "(string \<times> string) list" where
  "FIZZY_COLORS_LIGHT =
     [(''var(--color-card-1)'', ''#9a9a9f''),
      (''var(--color-card-2)'', ''#b59a6e''),
      (''var(--color-card-3)'', ''#c9a000''),
      (''var(--color-card-4)'', ''#7db000''),
      (''var(--color-card-5)'', ''#009eb3''),
      (''var(--color-card-6)'', ''#8a6ed9''),
      (''var(--color-card-7)'', ''#b94dc9''),
      (''var(--color-card-8)'', ''#e45b9e''),
      (''var(--color-card-default)'', ''#2b7dde''),
      (''var(--color-card-complete)'', ''#5c5c66'')]"

definition FIZZY_COLORS_DARK :: "(string \<times> string) list" where
  "FIZZY_COLORS_DARK =
     [(''var(--color-card-1)'', ''#8f8f97''),
      (''var(--color-card-2)'', ''#a08f6e''),
      (''var(--color-card-3)'', ''#a88900''),
      (''var(--color-card-4)'', ''#6d9600''),
      (''var(--color-card-5)'', ''#008fa0''),
      (''var(--color-card-6)'', ''#7a5fd0''),
      (''var(--color-card-7)'', ''#a446b0''),
      (''var(--color-card-8)'', ''#c5508a''),
      (''var(--color-card-default)'', ''#5a9eed''),
      (''var(--color-card-complete)'', ''#d6d6db'')]"

definition FIZZY_DEFAULT_VAR :: string where
  "FIZZY_DEFAULT_VAR = ''var(--color-card-default)''"

text \<open>
  The two tables are object literals, and \<^verbatim>\<open>colors[key]\<close> reads a property of an object:
  a property of its own or, failing that, one it inherits from \<^verbatim>\<open>Object.prototype\<close>.  The
  inherited ones are functions (and the prototype itself), never colors; a name that is
  neither gives \<^verbatim>\<open>undefined\<close>.
\<close>

datatype jsValue = Str string | Inherited string | Undefined

definition objectPrototypeNames :: "string list" where
  "objectPrototypeNames =
     [''constructor'', ''hasOwnProperty'', ''isPrototypeOf'', ''propertyIsEnumerable'',
      ''toLocaleString'', ''toString'', ''valueOf'', ''__proto__'',
      ''__defineGetter__'', ''__defineSetter__'', ''__lookupGetter__'', ''__lookupSetter__'']"

definition getProperty :: "(string \<times> string) list \<Rightarrow> string \<Rightarrow> jsValue" where
  "getProperty obj key =
     (case map_of obj key of
        Some v \<Rightarrow> Str v
      | None \<Rightarrow> if key \<in> set objectPrototypeNames then Inherited key else Undefined)"

text \<open>\<open>getFizzyColor\<close>.  \<^verbatim>\<open>Theme.isLight\<close> is the floating-point test
  \<^verbatim>\<open>(0.299 r + 0.587 g + 0.114 b) / 255 > 0.5\<close> on the terminal's background; its value is
  the parameter \<open>isLight\<close>.  The argument is a string or \<^verbatim>\<open>undefined\<close>.\<close>

definition getFizzyColor :: "bool \<Rightarrow> string option \<Rightarrow> jsValue" where
  "getFizzyColor isLight cssVar =
     (let colors = (if isLight then FIZZY_COLORS_LIGHT else FIZZY_COLORS_DARK)
      in case cssVar of
           None \<Rightarrow> getProperty colors FIZZY_DEFAULT_VAR
         | Some key \<Rightarrow>
             if key = [] then getProperty colors FIZZY_DEFAULT_VAR
             else (case getProperty colors key of
                     Undefined \<Rightarrow> getProperty colors FIZZY_DEFAULT_VAR
                   | v \<Rightarrow> v))"

section \<open>Inputs of the examples\<close>

text \<open>The style that \<open>renderHtml\<close> starts from, the list context that the parser's default
  parameter gives, and a theme whose four colors are told apart by their names.\<close>

definition initialState :: StyleState where
  "initialState = \<lparr>bold = False, italic = False, strikethrough = False, code = False\<rparr>"

definition defaultListContext :: ListContext where
  "defaultListContext = \<lparr>listType = NoList, counter = 0\<rparr>"

definition exampleTheme :: Theme where
  "exampleTheme = \<lparr>primary = ''primary'', secondary = ''secondary'', accent = ''accent'',
                    muted = ''muted''\<rparr>"

text \<open>A text without two white-space characters in a row.\<close>

fun noSpaceRun :: "string \<Rightarrow> bool" where
  "noSpaceRun (x # y # zs) = (\<not> (isSpace x \<and> isSpace y) \<and> noSpaceRun (y # zs))"
| "noSpaceRun zs = True"














section \<open>Color model: the round trip\<close>

lemma isHex_not_hash: "isHex c \<Longrightarrow> c \<noteq> CHR ''#''"
  by (auto simp: isHex_def isDigit_def charCode_def)

lemma length6: "length d = 6 \<Longrightarrow> \<exists>a1 a2 a3 a4 a5 a6. d = [a1, a2, a3, a4, a5, a6]"
  by (auto simp: length_Suc_conv eval_nat_numeral)

lemma hexRe_digits:
  "list_all isHex [a1, a2, a3, a4, a5, a6] \<Longrightarrow>
     matchSeq hexRe [a1, a2, a3, a4, a5, a6] = Some [[], [a1], [a2], [a3], [a4], [a5], [a6], []]"
  by (simp add: hexRe_def isHex_not_hash)

lemma hexRe_hash_digits:
  "list_all isHex [a1, a2, a3, a4, a5, a6] \<Longrightarrow>
     matchSeq hexRe (CHR ''#'' # [a1, a2, a3, a4, a5, a6]) = Some [''#'', [a1], [a2], [a3], [a4], [a5], [a6], []]"
  by (simp add: hexRe_def isHex_not_hash)

lemma hexRe_groups:
  assumes "matchSeq hexRe h = Some gs"
  shows "\<exists>a1 a2 a3 a4 a5 a6. list_all isHex [a1, a2, a3, a4, a5, a6] \<and>
           ((h = [a1, a2, a3, a4, a5, a6] \<and> gs = [[], [a1], [a2], [a3], [a4], [a5], [a6], []]) \<or>
            (h = CHR ''#'' # [a1, a2, a3, a4, a5, a6] \<and> gs = [''#'', [a1], [a2], [a3], [a4], [a5], [a6], []]))"
proof -
  from matchSeq_sound [OF assms]
  obtain rest where fs: "list_all2 fits hexRe gs" and h: "h = concat gs @ rest" and e: "End \<in> set hexRe \<longrightarrow> rest = []"
    by blast
  from e have rest: "rest = []" by (simp add: hexRe_def)
  from fs obtain g0 g1 g2 g3 g4 g5 g6 g7 where gs: "gs = [g0, g1, g2, g3, g4, g5, g6, g7]"
    and f0: "fits (Cls (\<lambda>x. x = CHR ''#'') Opt) g0"
    and f: "fits (Cls isHex One) g1" "fits (Cls isHex One) g2" "fits (Cls isHex One) g3"
       "fits (Cls isHex One) g4" "fits (Cls isHex One) g5" "fits (Cls isHex One) g6" "fits End g7"
    by (auto simp: hexRe_def list_all2_Cons1)
  from f obtain a1 a2 a3 a4 a5 a6 where a: "g1 = [a1]" "g2 = [a2]" "g3 = [a3]" "g4 = [a4]" "g5 = [a5]" "g6 = [a6]" "g7 = []"
    and hx: "list_all isHex [a1, a2, a3, a4, a5, a6]"
    by (auto simp: length_Suc_conv)
  from f0 have "g0 = [] \<or> g0 = ''#''"
    by (cases g0) auto
  with gs a hx h rest show ?thesis by auto
qed

lemma wellFormedHex_cases:
  "wellFormedHex h \<longleftrightarrow> (\<exists>a1 a2 a3 a4 a5 a6. list_all isHex [a1, a2, a3, a4, a5, a6] \<and>
       (h = [a1, a2, a3, a4, a5, a6] \<or> h = CHR ''#'' # [a1, a2, a3, a4, a5, a6]))"
  apply (rule iffI)
  subgoal
    apply (cases h)
     apply (simp add: wellFormedHex_def)
    apply (auto simp: wellFormedHex_def Let_def length_Suc_conv eval_nat_numeral split: if_splits)
    done
  subgoal
    by (auto simp: wellFormedHex_def Let_def isHex_not_hash)
  done

lemma hexDigitValue_lt: "isHex x \<Longrightarrow> hexDigitValue x < 16"
  by (auto simp: isHex_def hexDigitValue_def isDigit_def isLower_def)

lemma hexDigit_hexDigitValue: "isHex x \<Longrightarrow> hexDigit (hexDigitValue x) = asciiLower x"
  by (auto simp: isHex_def hexDigitValue_def hexDigit_def asciiLower_def isDigit_def isLower_def
      isUpper_def charCode_def)

lemma hexDigit_0: "hexDigit 0 = CHR ''0''"
  by code_simp

lemma toString16_small: "n < 16 \<Longrightarrow> toString16 n = [hexDigit n]"
  by (subst toString16.simps) simp

lemma toString16_pair:
  assumes "x < 16" "y < 16"
  shows "padStart 2 CHR ''0'' (toString16 (16 * x + y)) = [hexDigit x, hexDigit y]"
proof (cases "x = 0")
  case True
  with assms show ?thesis by (simp add: padStart_def hexDigit_0 toString16_small)
next
  case False
  with assms have "\<not> 16 * x + y < 16" "(16 * x + y) div 16 = x" "(16 * x + y) mod 16 = y"
    by auto
  with assms show ?thesis
    by (subst toString16.simps) (simp add: padStart_def toString16_small)
qed

lemma hex_pair:
  assumes "isHex x" "isHex y"
  shows "padStart 2 CHR ''0'' (toString16 (parseInt16 [x, y])) = [asciiLower x, asciiLower y]"
  using assms toString16_pair [of "hexDigitValue x" "hexDigitValue y"]
  by (simp add: parseInt16_def hexDigitValue_lt hexDigit_hexDigitValue)

lemma asciiLower_isHex: "isHex x \<Longrightarrow> isHex (asciiLower x)"
  by (auto simp: isHex_def asciiLower_def isDigit_def isUpper_def charCode_def)

lemma hexDigitValue_asciiLower: "isHex x \<Longrightarrow> hexDigitValue (asciiLower x) = hexDigitValue x"
  by (auto simp: isHex_def asciiLower_def isDigit_def isUpper_def isLower_def charCode_def hexDigitValue_def)

text \<open>
  C9.  For every well-formed 6-digit hexadecimal color (either case, with or without the
  leading \<^verbatim>\<open>#\<close>), \<open>rgbToHex\<close> after \<open>hexToRgb\<close> gives the canonical lower-case form
  \<^verbatim>\<open>#rrggbb\<close> of the same color; for every other string \<open>hexToRgb\<close> gives black.
\<close>

theorem hex_round_trip:
  "(wellFormedHex h \<longrightarrow>
      rgbToHex (r (hexToRgb h)) (g (hexToRgb h)) (b (hexToRgb h)) = canonicalHex h \<and>
      hexToRgb (canonicalHex h) = hexToRgb h) \<and>
   (\<not> wellFormedHex h \<longrightarrow> hexToRgb h = \<lparr>r = 0, g = 0, b = 0\<rparr>)"
proof (intro conjI impI)
  assume "wellFormedHex h"
  then obtain a1 a2 a3 a4 a5 a6 where hx: "list_all isHex [a1, a2, a3, a4, a5, a6]"
    and h: "h = [a1, a2, a3, a4, a5, a6] \<or> h = CHR ''#'' # [a1, a2, a3, a4, a5, a6]"
    unfolding wellFormedHex_cases by blast
  from hx have ne: "a1 \<noteq> CHR ''#''" by (simp add: isHex_not_hash)
  from hx have rgb: "hexToRgb h = \<lparr>r = parseInt16 [a1, a2], g = parseInt16 [a3, a4], b = parseInt16 [a5, a6]\<rparr>"
    using h hexRe_digits [OF hx] hexRe_hash_digits [OF hx] by (auto simp: hexToRgb_def)
  from h ne have can: "canonicalHex h = CHR ''#'' # map asciiLower [a1, a2, a3, a4, a5, a6]"
    by (auto simp: canonicalHex_def)
  from hx show "rgbToHex (r (hexToRgb h)) (g (hexToRgb h)) (b (hexToRgb h)) = canonicalHex h"
    by (simp add: rgb can rgbToHex_def hex_pair)
  from hx have hx': "list_all isHex [asciiLower a1, asciiLower a2, asciiLower a3, asciiLower a4, asciiLower a5, asciiLower a6]"
    by (simp add: asciiLower_isHex)
  from hx have "hexToRgb (canonicalHex h) =
      \<lparr>r = parseInt16 [a1, a2], g = parseInt16 [a3, a4], b = parseInt16 [a5, a6]\<rparr>"
    using hexRe_hash_digits [OF hx']
    by (simp add: can hexToRgb_def parseInt16_def hexDigitValue_asciiLower)
  with rgb show "hexToRgb (canonicalHex h) = hexToRgb h"
    by simp
next
  assume nwf: "\<not> wellFormedHex h"
  have "matchSeq hexRe h = None"
  proof (cases "matchSeq hexRe h")
    case (Some gs)
    from hexRe_groups [OF Some] have "wellFormedHex h"
      unfolding wellFormedHex_cases by blast
    with nwf show ?thesis by simp
  qed simp
  then show "hexToRgb h = \<lparr>r = 0, g = 0, b = 0\<rparr>"
    by (simp add: hexToRgb_def)
qed

theorem hex_round_trip_witness:
  "wellFormedHex ''#Ff00a1'' \<and> \<not> wellFormedHex ''#ff00a'' \<and>
   rgbToHex (r (hexToRgb ''#Ff00a1'')) (g (hexToRgb ''#Ff00a1'')) (b (hexToRgb ''#Ff00a1'')) = ''#ff00a1'' \<and>
   hexToRgb ''#ff00a1'' = hexToRgb ''#Ff00a1'' \<and>
   hexToRgb ''#ff00a'' = \<lparr>r = 0, g = 0, b = 0\<rparr>"
proof -
  have w: "wellFormedHex ''#Ff00a1''" by code_simp
  have n: "\<not> wellFormedHex ''#ff00a''" by code_simp
  have c: "canonicalHex ''#Ff00a1'' = ''#ff00a1''" by code_simp
  from w n c hex_round_trip [of "''#Ff00a1''"] hex_round_trip [of "''#ff00a''"]
  show ?thesis by simp
qed

section \<open>The nesting-depth scan\<close>

text \<open>
  C3.  The scan of \<open>findMatchingClose\<close> should count, before each candidate close, the
  nested opening tags of the same name.  Its pattern \<^verbatim>\<open><name[^>]*>\<close> also matches every
  opening tag whose name only starts with \<open>name\<close>: in \<^verbatim>\<open><b>x<br>y</b>\<close> the line break
  counts as an opening of \<^verbatim>\<open>b\<close>, the depth never reaches zero, no close is found for the
  bold tag, and the parser drops the tag: \<open>x\<close> and \<open>y\<close> come out without the bold
  attribute.  A scan that counts tags named \<^verbatim>\<open>b\<close> finds the close at index 6.
\<close>

theorem findMatchingClose_counts_longer_names:
  "findMatchingClose ''x<br>y</b>'' ''b'' = None \<and>
   length (matchAll (openTagRe ''b'') ''x<br>y'') = 1 \<and>
   indexOf ''x<br>y</b>'' ''</b>'' = Some 6 \<and>
   fst (parseHtmlContent exampleTheme ''<b>x<br>y</b>'' initialState ''fg'' defaultListContext) =
     [\<lparr>content = ''x'', fg = ''fg'', attributes = {}\<rparr>,
      \<lparr>content = [nl], fg = ''fg'', attributes = {}\<rparr>,
      \<lparr>content = ''y'', fg = ''fg'', attributes = {}\<rparr>] \<and>
   fst (parseHtmlContent exampleTheme ''<b>xy</b>'' initialState ''fg'' defaultListContext) =
     [\<lparr>content = ''xy'', fg = ''fg'', attributes = {BOLD}\<rparr>]"
  by code_simp

section \<open>Unknown tags\<close>

text \<open>
  C4.  An unknown tag should be a transparent container.  The default case of the parser
  calls \<open>parseHtmlContent\<close> without the list context, so the body is parsed in the default
  context (no list, counter 0), while the sibling case of \<^verbatim>\<open>div\<close>, \<^verbatim>\<open>span\<close>, \<^verbatim>\<open>figure\<close> and
  \<^verbatim>\<open>figcaption\<close> passes the context on.  A list item of an ordered list inside an unknown
  tag gets a bullet; inside a \<^verbatim>\<open>div\<close>, or alone, it gets its number.
\<close>

theorem unknown_tag_resets_list_context:
  "map content (fst (parseHtmlContent exampleTheme ''<ol><x><li>a</li></x></ol>''
      initialState ''fg'' defaultListContext)) = [bulletText, ''a'', [nl]] \<and>
   map content (fst (parseHtmlContent exampleTheme ''<ol><div><li>a</li></div></ol>''
      initialState ''fg'' defaultListContext)) = [''1. '', ''a'', [nl]] \<and>
   map content (fst (parseHtmlContent exampleTheme ''<ol><li>a</li></ol>''
      initialState ''fg'' defaultListContext)) = [''1. '', ''a'', [nl]]"
  by code_simp

section \<open>Category colors\<close>

lemma getFizzyColor_own_or_default:
  assumes "key \<notin> set objectPrototypeNames"
  shows "getFizzyColor isLight (Some key) =
     (case map_of (if isLight then FIZZY_COLORS_LIGHT else FIZZY_COLORS_DARK) key of
        Some v \<Rightarrow> Str v
      | None \<Rightarrow> getFizzyColor isLight None)"
proof -
  have d: "getProperty (if isLight then FIZZY_COLORS_LIGHT else FIZZY_COLORS_DARK) [] = Undefined"
    by (simp add: getProperty_def FIZZY_COLORS_LIGHT_def FIZZY_COLORS_DARK_def
        objectPrototypeNames_def)
  have e: "getProperty (if isLight then FIZZY_COLORS_LIGHT else FIZZY_COLORS_DARK)
             FIZZY_DEFAULT_VAR \<noteq> Undefined"
    by (simp add: getProperty_def FIZZY_COLORS_LIGHT_def FIZZY_COLORS_DARK_def
        FIZZY_DEFAULT_VAR_def)
  show ?thesis
  proof (cases "key = []")
    case True
    then show ?thesis
      by (simp add: getFizzyColor_def FIZZY_COLORS_LIGHT_def FIZZY_COLORS_DARK_def)
  next
    case False
    with assms show ?thesis
      by (auto simp: getFizzyColor_def getProperty_def Let_def split: option.splits)
  qed
qed

text \<open>
  C8.  The lookup should give the default key's color for every key that the selected
  table does not have.  \<^verbatim>\<open>colors[cssVar]\<close> also finds the properties that every object
  inherits: for the key \<^verbatim>\<open>constructor\<close>, which neither table has, \<open>getFizzyColor\<close> returns
  the inherited function and not the color of the default key, in the light and in the
  dark table.  For the keys that are not such names the lookup is as claimed
  (\<open>getFizzyColor_own_or_default\<close>).
\<close>

theorem getFizzyColor_inherited_key:
  "map_of FIZZY_COLORS_LIGHT ''constructor'' = None \<and>
   map_of FIZZY_COLORS_DARK ''constructor'' = None \<and>
   getFizzyColor True (Some ''constructor'') = Inherited ''constructor'' \<and>
   getFizzyColor False (Some ''constructor'') = Inherited ''constructor'' \<and>
   getFizzyColor True None = Str ''#2b7dde'' \<and>
   getFizzyColor False None = Str ''#5a9eed'' \<and>
   getFizzyColor True (Some ''var(--no-such-color)'') = Str ''#2b7dde'' \<and>
   getFizzyColor False (Some ''var(--no-such-color)'') = Str ''#5a9eed''"
  by code_simp

section \<open>De-duplication of plain images\<close>

text \<open>
  C10.  A plain image should be skipped only when a descriptor of a rich attachment
  already holds its source, as the comment in the source says.  The test runs over all
  the descriptors collected so far, those of earlier plain images too: of two plain
  images with the source \<^verbatim>\<open>/a.png\<close>, in a text without any rich attachment, the second is
  skipped.
\<close>

theorem plain_image_skipped_without_attachment:
  "matchAll attachmentRegex
     (''<img src='' @ [dq] @ ''/a.png'' @ [dq] @ ''><img src='' @ [dq] @ ''/a.png'' @ [dq] @ ''>'') = [] \<and>
   length (matchAll imgRegex
     (''<img src='' @ [dq] @ ''/a.png'' @ [dq] @ ''><img src='' @ [dq] @ ''/a.png'' @ [dq] @ ''>'')) = 2 \<and>
   extractImageUrls
     (''<img src='' @ [dq] @ ''/a.png'' @ [dq] @ ''><img src='' @ [dq] @ ''/a.png'' @ [dq] @ ''>'') =
     [\<lparr>url = ''https://app.fizzy.do/a.png'', alt = ''image'', width = None, height = None\<rparr>]"
  by code_simp

section \<open>Termination of the parser\<close>

text \<open>\<open>f_dom x\<close> says that the calls a function makes from the argument \<open>x\<close>, the turns of
  its loop and its recursive calls, form a well-founded tree: the function returns on \<open>x\<close>.\<close>

lemma parseHtmlContent_total: "All parseHtmlContent_dom"
  by (relation "measure (\<lambda>(th, remaining, state, defaultFg, listContext). length remaining)")
     (simp, (rule call_inner call_after_close call_after_tag; assumption)+)

lemma findMatchingClose_loop_total: "All findMatchingClose_loop_dom"
  by (relation "measure (\<lambda>(html, tagName, depth, pos). length html - pos)")
     (auto simp: closeTagOf_def dest: indexOfFrom_ge)

text \<open>
  C1.  The parser returns on every text, in every style, color and list context, and
  so does the scan for the closing tag, from every depth and position.  A turn of the
  loop ends the loop when the text has no tag at its first \<^verbatim>\<open><\<close>; otherwise the tag match
  is a non-empty prefix of the text, so the text after it is strictly shorter, and the
  two texts the parser goes on with, the body before any index \<open>closeIndex\<close> and the rest
  from any index \<open>k\<close>, are strictly shorter than the text of the turn.
\<close>

theorem parseHtmlContent_terminates:
  "parseHtmlContent_dom (th, html, state, defaultFg, listContext) \<and>
   findMatchingClose_loop_dom (html, tagName, depth, pos) \<and>
   (case matchSeq tagRe html of
      None \<Rightarrow> True
    | Some tagMatch \<Rightarrow>
        0 < length (concat tagMatch) \<and> prefix (concat tagMatch) html \<and>
        length (drop (length (concat tagMatch)) html) < length html \<and>
        (\<forall>closeIndex. length (take closeIndex (drop (length (concat tagMatch)) html)) < length html) \<and>
        (\<forall>k. length (drop k (drop (length (concat tagMatch)) html)) < length html))"
proof (intro conjI)
  show "parseHtmlContent_dom (th, html, state, defaultFg, listContext)"
    using parseHtmlContent_total by blast
  show "findMatchingClose_loop_dom (html, tagName, depth, pos)"
    using findMatchingClose_loop_total by blast
  show "case matchSeq tagRe html of
      None \<Rightarrow> True
    | Some tagMatch \<Rightarrow>
        0 < length (concat tagMatch) \<and> prefix (concat tagMatch) html \<and>
        length (drop (length (concat tagMatch)) html) < length html \<and>
        (\<forall>closeIndex. length (take closeIndex (drop (length (concat tagMatch)) html)) < length html) \<and>
        (\<forall>k. length (drop k (drop (length (concat tagMatch)) html)) < length html)"
  proof (cases "matchSeq tagRe html")
    case None
    then show ?thesis by simp
  next
    case (Some tagMatch)
    from tagRe_consumes [OF Some]
    have lt: "length (drop (length (concat tagMatch)) html) < length html" .
    then have "length html - length (concat tagMatch) < length html"
      by (simp del: length_concat)
    then have "0 < length (concat tagMatch)" by arith
    moreover from lt
    have "\<And>closeIndex. length (take closeIndex (drop (length (concat tagMatch)) html)) < length html"
      by (simp del: length_concat)
    moreover from lt
    have "\<And>k. length (drop k (drop (length (concat tagMatch)) html)) < length html"
      by (simp del: length_concat)
    ultimately show ?thesis using Some lt matchSeq_prefix [OF Some]
      by (simp del: length_concat length_drop length_take drop_drop length_greater_0_conv)
  qed
qed

section \<open>Ordered lists\<close>

lemma tagRe_nonempty: "matchSeq tagRe s = Some gs \<Longrightarrow> s \<noteq> []"
  using tagRe_consumes [of s gs] by auto

lemma replaceAll_Nil [simp]: "replaceAll p r' [] = []"
  by simp

lemma textBeforeNodes_Nil: "textBeforeNodes [] st fg0 = []"
  by (simp add: textBeforeNodes_def decodeHtmlEntities_def)






























section \<open>The text in front of a tag\<close>

lemma star_rest:
  "matchSeq (Cls p Star # is) s = Some (x # xs) \<Longrightarrow> matchSeq is (drop (length x) s) = Some xs"
proof (induction s arbitrary: x)
  case Nil
  then show ?case by auto
next
  case (Cons c cs)
  show ?case
  proof (cases "p c")
    case False
    with Cons.prems show ?thesis by auto
  next
    case True
    show ?thesis
    proof (cases "matchSeq (Cls p Star # is) cs")
      case None
      with True Cons.prems show ?thesis by auto
    next
      case (Some ys)
      show ?thesis
      proof (cases ys)
        case Nil
        with Some True Cons.prems show ?thesis by auto
      next
        case (Cons y ys')
        with Some True Cons.prems have "x = c # y" "xs = ys'" by auto
        with Cons.IH [of y] Some Cons show ?thesis by simp
      qed
    qed
  qed
qed

lemma tagRe_without_text:
  assumes "matchSeq tagRe s = Some gs"
  shows "matchSeq tagRe (drop (length (gs ! 0)) s) = Some ([] # tl gs)"
proof -
  from matchSeq_length [OF assms] obtain x xs where gs: "gs = x # xs"
    by (cases gs) (auto simp: tagRe_def)
  let ?is = "[Cls (\<lambda>x. x = CHR ''<'') One, Cls (\<lambda>x. x = CHR ''/'') Opt, Cls isWordDash Plus,
            Cls (\<lambda>x. x \<noteq> CHR ''>'') Star, Cls (\<lambda>x. x = CHR ''>'') One]"
  from assms gs have r: "matchSeq ?is (drop (length x) s) = Some xs"
    by (auto simp: tagRe_def dest: star_rest)
  then obtain cs where d: "drop (length x) s = CHR ''<'' # cs"
    by (cases "drop (length x) s") (auto split: if_splits)
  have "matchSeq tagRe (CHR ''<'' # cs) = map_option (Cons []) (matchSeq ?is (CHR ''<'' # cs))"
    by (simp add: tagRe_def)
  with r d gs show ?thesis by simp
qed


lemma parse_text_before:
  assumes m: "matchSeq tagRe remaining = Some gs"
  shows "parseHtmlContent th remaining st fg0 lc =
     (textBeforeNodes (gs ! 0) st fg0
        @ fst (parseHtmlContent th (drop (length (gs ! 0)) remaining) st fg0 lc),
      snd (parseHtmlContent th (drop (length (gs ! 0)) remaining) st fg0 lc))"
proof -
  define r' where "r' = drop (length (gs ! 0)) remaining"
  from matchSeq_length [OF m] obtain x xs where gs: "gs = x # xs"
    by (cases gs) (auto simp: tagRe_def)
  from tagRe_without_text [OF m] have m': "matchSeq tagRe r' = Some ([] # xs)"
    by (simp add: r'_def gs)
  note ne = tagRe_nonempty [OF m] and ne' = tagRe_nonempty [OF m']
  have rem: "drop (length (concat ([] # xs))) r' = drop (length (concat gs)) remaining"
    by (simp add: r'_def gs add.commute)
  have i2: "([] # xs) ! 2 = gs ! 2" and i3: "([] # xs) ! 3 = gs ! 3" and i4: "([] # xs) ! 4 = gs ! 4"
    and i0: "([] # xs) ! 0 = []"
    by (simp_all add: gs)
  have "parseHtmlContent th remaining st fg0 lc =
     (textBeforeNodes (gs ! 0) st fg0 @ fst (parseHtmlContent th r' st fg0 lc),
      snd (parseHtmlContent th r' st fg0 lc))"
    apply (simp only: parseHtmlContent.simps [of th remaining] parseHtmlContent.simps [of th r'])
    apply (simp only: m m' ne ne' if_False option.case Let_def rem i2 i3 i4 i0 textBeforeNodes_Nil)
    apply (simp add: case_prod_beta split: option.split del: length_concat)
    done
  then show ?thesis by (simp only: r'_def)
qed

lemma trim_empty: "trim s = [] \<longleftrightarrow> list_all isSpace s"
proof -
  have "trim s = [] \<longleftrightarrow> dropWhile isSpace (rev (dropWhile isSpace s)) = []"
    by (simp add: trim_def del: dropWhile_eq_Nil_conv)
  also have "\<dots> \<longleftrightarrow> (\<forall>x\<in>set (dropWhile isSpace s). isSpace x)"
    by (simp only: dropWhile_eq_Nil_conv set_rev)
  also have "\<dots> \<longleftrightarrow> dropWhile isSpace s = []"
  proof
    assume a: "\<forall>x\<in>set (dropWhile isSpace s). isSpace x"
    show "dropWhile isSpace s = []"
    proof (rule ccontr)
      assume n: "dropWhile isSpace s \<noteq> []"
      then have "\<not> isSpace (hd (dropWhile isSpace s))" by (rule hd_dropWhile)
      moreover from n have "hd (dropWhile isSpace s) \<in> set (dropWhile isSpace s)"
        by (rule hd_in_set)
      ultimately show False using a by blast
    qed
  next
    assume "dropWhile isSpace s = []"
    then show "\<forall>x\<in>set (dropWhile isSpace s). isSpace x"
      by (simp del: dropWhile_eq_Nil_conv)
  qed
  also have "\<dots> \<longleftrightarrow> list_all isSpace s"
    by (simp add: dropWhile_eq_Nil_conv list_all_iff)
  finally show ?thesis .
qed

lemma includes_char: "includes_str s [c] \<longleftrightarrow> c \<in> set s"
  by (auto simp: includes_str_def sublist_def in_set_conv_decomp)

lemma collapseSpaces_keeps_text:
  "filter (\<lambda>c. \<not> isSpace c) (collapseSpaces s) = filter (\<lambda>c. \<not> isSpace c) s"
proof (induction s rule: collapseSpaces.induct)
  case 1
  show ?case by simp
next
  case (2 c cs)
  have sp: "isSpace (CHR '' '')" by (simp add: isSpace_def charCode_def)
  have "filter (\<lambda>c. \<not> isSpace c) (dropWhile isSpace cs) = filter (\<lambda>c. \<not> isSpace c) cs"
    by (induction cs) auto
  with 2 sp show ?case by simp
qed

lemma collapseSpaces_spaces:
  "x \<in> set (collapseSpaces s) \<Longrightarrow> isSpace x \<Longrightarrow> x = CHR '' ''"
proof (induction s rule: collapseSpaces.induct)
  case 1
  then show ?case by simp
next
  case (2 c cs)
  then show ?case by (auto split: if_splits)
qed

lemma collapseSpaces_head:
  "s \<noteq> [] \<Longrightarrow> \<not> isSpace (hd s) \<Longrightarrow> collapseSpaces s \<noteq> [] \<and> hd (collapseSpaces s) = hd s"
  by (cases s) auto

lemma collapseSpaces_noSpaceRun: "noSpaceRun (collapseSpaces s)"
proof (induction s rule: collapseSpaces.induct)
  case 1
  show ?case by simp
next
  case (2 c cs)
  show ?case
  proof (cases "isSpace c")
    case True
    let ?d = "dropWhile isSpace cs"
    show ?thesis
    proof (cases "?d = []")
      case True
      with \<open>isSpace c\<close> show ?thesis by (simp del: dropWhile_eq_Nil_conv)
    next
      case False
      then have "\<not> isSpace (hd ?d)" by (rule hd_dropWhile)
      with False collapseSpaces_head [of ?d]
      obtain y ys where "collapseSpaces ?d = y # ys" "\<not> isSpace y"
        by (cases "collapseSpaces ?d") auto
      with 2(1) [OF True] True show ?thesis by simp
    qed
  next
    case False
    with 2(2) show ?thesis
      by (cases "collapseSpaces cs") auto
  qed
qed

text \<open>
  C6, as the code has it.  The text in front of a tag is decoded first.  It gives no node
  when the decoded text is empty, or is all white space and has a line feed in it;
  every other text gives one node, also a text of spaces without a line feed.  The node
  holds the decoded text as it is when the code flag is set, and otherwise the text with
  every run of white space collapsed: the characters that are not white space are kept
  in order, no two white-space characters follow one another, and the only white-space
  character left is the space.  The nodes after it are those of the same text without
  the segment, whose match starts at the tag.
\<close>

theorem text_before_tag:
  assumes "matchSeq tagRe remaining = Some tagMatch"
  shows
   "(let segment = decodeHtmlEntities (tagMatch ! 0);
         rest = parseHtmlContent th (drop (length (tagMatch ! 0)) remaining) state defaultFg
                  listContext
     in parseHtmlContent th remaining state defaultFg listContext =
          ((if segment = [] \<or> (list_all isSpace segment \<and> nl \<in> set segment) then []
            else [\<lparr>content = (if code state then segment else collapseSpaces segment),
                   fg = (if code state then codeGreen else defaultFg),
                   attributes = getAttributes state\<rparr>])
           @ fst rest, snd rest)
        \<and> matchSeq tagRe (drop (length (tagMatch ! 0)) remaining) = Some ([] # tl tagMatch)
        \<and> textBeforeNodes [] state defaultFg = []
        \<and> filter (\<lambda>c. \<not> isSpace c) (collapseSpaces segment) = filter (\<lambda>c. \<not> isSpace c) segment
        \<and> noSpaceRun (collapseSpaces segment)
        \<and> (\<forall>c \<in> set (collapseSpaces segment). isSpace c \<longrightarrow> c = CHR '' ''))"
proof -
  have tb: "textBeforeNodes (tagMatch ! 0) state defaultFg =
      (if decodeHtmlEntities (tagMatch ! 0) = [] \<or>
          (list_all isSpace (decodeHtmlEntities (tagMatch ! 0)) \<and> nl \<in> set (decodeHtmlEntities (tagMatch ! 0)))
       then []
       else [\<lparr>content = (if code state then decodeHtmlEntities (tagMatch ! 0)
                          else collapseSpaces (decodeHtmlEntities (tagMatch ! 0))),
              fg = (if code state then codeGreen else defaultFg),
              attributes = getAttributes state\<rparr>])"
    by (simp add: textBeforeNodes_def Let_def trim_empty includes_char styledNode_def)
  show ?thesis
    unfolding Let_def
    using parse_text_before [OF assms, of th state defaultFg listContext]
      tagRe_without_text [OF assms] collapseSpaces_keeps_text collapseSpaces_noSpaceRun
      collapseSpaces_spaces textBeforeNodes_Nil
    by (auto simp only: tb)
qed

theorem text_before_tag_witness:
  "matchSeq tagRe ''a  b<br>'' = Some [''a  b'', ''<'', [], ''br'', [], ''>''] \<and>
   parseHtmlContent exampleTheme ''a  b<br>'' initialState ''fg'' defaultListContext =
     ([\<lparr>content = ''a b'', fg = ''fg'', attributes = {}\<rparr>,
       \<lparr>content = [nl], fg = ''fg'', attributes = {}\<rparr>], defaultListContext) \<and>
   parseHtmlContent exampleTheme ''a  b<br>'' (initialState\<lparr>code := True\<rparr>) ''fg''
       defaultListContext =
     ([\<lparr>content = ''a  b'', fg = codeGreen, attributes = {}\<rparr>,
       \<lparr>content = [nl], fg = ''fg'', attributes = {}\<rparr>], defaultListContext) \<and>
   matchSeq tagRe ([nl] @ ''  <br>'') = Some [[nl] @ ''  '', ''<'', [], ''br'', [], ''>''] \<and>
   parseHtmlContent exampleTheme ([nl] @ ''  <br>'') initialState ''fg'' defaultListContext =
     ([\<lparr>content = [nl], fg = ''fg'', attributes = {}\<rparr>], defaultListContext)"
proof -
  let ?G = "[''a  b'', ''<'', [], ''br'', [], ''>'']"
  let ?H = "[[nl] @ ''  '', ''<'', [], ''br'', [], ''>'']"
  have m1: "matchSeq tagRe ''a  b<br>'' = Some ?G" by code_simp
  have m2: "matchSeq tagRe ([nl] @ ''  <br>'') = Some ?H" by code_simp
  note e1 = text_before_tag [OF m1, of exampleTheme initialState "''fg''" defaultListContext,
      unfolded Let_def, THEN conjunct1]
  note e2 = text_before_tag [OF m1, of exampleTheme "initialState\<lparr>code := True\<rparr>" "''fg''"
      defaultListContext, unfolded Let_def, THEN conjunct1]
  note e3 = text_before_tag [OF m2, of exampleTheme initialState "''fg''" defaultListContext,
      unfolded Let_def, THEN conjunct1]
  have p1: "parseHtmlContent exampleTheme ''a  b<br>'' initialState ''fg'' defaultListContext =
     ([\<lparr>content = ''a b'', fg = ''fg'', attributes = {}\<rparr>,
       \<lparr>content = [nl], fg = ''fg'', attributes = {}\<rparr>], defaultListContext)"
    by (subst e1) code_simp
  have p2: "parseHtmlContent exampleTheme ''a  b<br>'' (initialState\<lparr>code := True\<rparr>) ''fg''
       defaultListContext =
     ([\<lparr>content = ''a  b'', fg = codeGreen, attributes = {}\<rparr>,
       \<lparr>content = [nl], fg = ''fg'', attributes = {}\<rparr>], defaultListContext)"
    by (subst e2) code_simp
  have p3: "parseHtmlContent exampleTheme ([nl] @ ''  <br>'') initialState ''fg'' defaultListContext =
     ([\<lparr>content = [nl], fg = ''fg'', attributes = {}\<rparr>], defaultListContext)"
    by (subst e3) code_simp
  from m1 p1 p2 m2 p3 show ?thesis by (intro conjI)
qed

text \<open>The claim as it was written fails on a segment of one space: it is all white
  space, and it is emitted.\<close>

theorem whitespace_segment_emitted:
  "matchSeq tagRe '' <br>'' = Some ['' '', ''<'', [], ''br'', [], ''>''] \<and>
   list_all isSpace (decodeHtmlEntities '' '') \<and>
   fst (parseHtmlContent exampleTheme '' <br>'' initialState ''fg'' defaultListContext) =
     [\<lparr>content = '' '', fg = ''fg'', attributes = {}\<rparr>,
      \<lparr>content = [nl], fg = ''fg'', attributes = {}\<rparr>]"
  by code_simp

section \<open>URL rewriting\<close>









section \<open>Entity escapes in the runs\<close>






















end
